theory Spec2Isabelle
  imports Complex_Main "HOL-Library.List_Lexorder" "HOL-Library.Char_ord"
begin

section \<open>Rover teleoperation: the data model\<close>

text \<open>
  The three driver scripts share one function, \<open>rover_keyboard_loop\<close>, in three
  variants: \<open>px4_keyboard_drone_rover.py\<close> and \<open>px4_keyboard_drone_rover_chase.py\<close>
  read a set of held keys (the edge-set variants) and ramp the actuators toward a
  target; \<open>xbox_keyboard_drone_rover.py\<close> polls one buffered key per tick and
  applies it directly.

  Python's floats are idealised as real numbers: \<open>+\<close>, \<open>-\<close>, \<open>min\<close>, \<open>max\<close>, \<open>abs\<close>
  and the comparisons are exact, so the rounding of IEEE binary64 arithmetic is
  outside the model. The decimal literals of the source (\<open>0.02\<close>, \<open>0.05\<close>, ...)
  are their decimal values.
\<close>

text \<open>The keys of \<open>pynput\<close> that the edge-set variants look at: the special keys
  \<open>Key.up\<close>, \<open>Key.down\<close>, \<open>Key.left\<close>, \<open>Key.right\<close>, \<open>Key.space\<close>, and the
  character keys \<open>KeyCode.from_char(c)\<close>.\<close>

datatype key = Key_up | Key_down | Key_left | Key_right | Key_space | KeyCode char

text \<open>The loop variables \<open>engine\<close>, \<open>steer\<close>, \<open>brake\<close>.\<close>

record actuators =
  engine :: real
  steer :: real
  brake :: real

text \<open>The loop starts with \<open>engine = 0.0\<close>, \<open>steer = 0.0\<close>, \<open>brake = 0.0\<close>.\<close>

definition neutral :: actuators where
  "neutral = \<lparr>engine = 0, steer = 0, brake = 0\<rparr>"

datatype variant = Px4 | Chase

text \<open>The module constants. \<open>ENGINE_STEP\<close> is \<open>0.002\<close> in
  \<open>px4_keyboard_drone_rover.py\<close> and \<open>0.02\<close> in \<open>px4_keyboard_drone_rover_chase.py\<close>;
  \<open>STEER_STEP\<close> is \<open>0.05\<close> in both.\<close>

fun ENGINE_STEP :: "variant \<Rightarrow> real" where
  "ENGINE_STEP Px4 = 2 / 1000"
| "ENGINE_STEP Chase = 2 / 100"

definition STEER_STEP :: real where
  "STEER_STEP = 5 / 100"

section \<open>One tick of the edge-set loop\<close>

text \<open>
  \<^verbatim>\<open>
  target_engine = 0.0; target_steer = 0.0; new_brake = 0.0
  if Key.up in keys_pressed:      target_engine = 1.0
  elif Key.down in keys_pressed:  target_engine = -1.0
  if Key.left in keys_pressed:    target_steer = -1.0
  elif Key.right in keys_pressed: target_steer = 1.0
  if Key.space in keys_pressed:
      new_brake = 1.0; target_engine = 0.0; target_steer = 0.0
  \<close>
  The result is \<open>(target_engine, target_steer, new_brake)\<close>.
\<close>

definition key_targets :: "key set \<Rightarrow> real \<times> real \<times> real" where
  "key_targets ks =
     (let target_engine = (if Key_up \<in> ks then 1
                           else if Key_down \<in> ks then - 1 else 0);
          target_steer = (if Key_left \<in> ks then - 1
                          else if Key_right \<in> ks then 1 else 0);
          new_brake = 0
      in if Key_space \<in> ks then (0, 0, 1)
         else (target_engine, target_steer, new_brake))"

text \<open>
  \<^verbatim>\<open>
  if engine < target_engine:
      engine = min(engine + ENGINE_STEP, target_engine); controls_updated = True
  elif engine > target_engine:
      engine = max(engine - ENGINE_STEP, target_engine); controls_updated = True
  \<close>
  and the same for \<open>steer\<close> with \<open>STEER_STEP\<close>. The pair is the new value and
  whether the branch set \<open>controls_updated\<close>.
\<close>

definition ramp :: "real \<Rightarrow> real \<Rightarrow> real \<Rightarrow> real \<times> bool" where
  "ramp step current target =
     (if current < target then (min (current + step) target, True)
      else if current > target then (max (current - step) target, True)
      else (current, False))"

text \<open>The ramping section of the loop body: engine, steering, then
  \<^verbatim>\<open>if brake != new_brake: brake = new_brake; controls_updated = True\<close>.
  The result is the new loop variables and \<open>controls_updated\<close>.\<close>

definition ramp_tick :: "variant \<Rightarrow> actuators \<Rightarrow> key set \<Rightarrow> actuators \<times> bool" where
  "ramp_tick v a ks =
     (let (target_engine, target_steer, new_brake) = key_targets ks;
          (engine', upd_e) = ramp (ENGINE_STEP v) (engine a) target_engine;
          (steer', upd_s) = ramp STEER_STEP (steer a) target_steer;
          (brake', upd_b) = (if brake a \<noteq> new_brake then (new_brake, True)
                             else (brake a, False))
      in (\<lparr>engine = engine', steer = steer', brake = brake'\<rparr>,
          upd_e \<or> upd_s \<or> upd_b))"

text \<open>The guard of the send:
  \<^verbatim>\<open>if controls_updated or abs(engine) > 0.01 or abs(steer) > 0.01\<close>,
  read after the ramping, so on the new values.\<close>

definition send_due :: "actuators \<Rightarrow> bool \<Rightarrow> bool" where
  "send_due a' controls_updated \<longleftrightarrow>
     controls_updated \<or> \<bar>engine a'\<bar> > 1 / 100 \<or> \<bar>steer a'\<bar> > 1 / 100"

text \<open>The loop variables after one tick, and whether the tick calls
  \<open>set_rover_controls\<close>.\<close>

definition tick_state :: "variant \<Rightarrow> actuators \<Rightarrow> key set \<Rightarrow> actuators" where
  "tick_state v a ks = fst (ramp_tick v a ks)"

definition tick_sends :: "variant \<Rightarrow> actuators \<Rightarrow> key set \<Rightarrow> bool" where
  "tick_sends v a ks = send_due (tick_state v a ks) (snd (ramp_tick v a ks))"


section \<open>The edge-set loop and its shutdown\<close>

text \<open>
  What the loop does to the outside world is a list of events, in program order.
  \<open>SetControls e s b\<close> is a call \<open>rover.set_rover_controls(engine=e,
  steering_angle=s, brake=b)\<close>; the other events are the calls of the same name.
  A call on the rover can raise; whether it does is an input of the model.
\<close>

datatype event =
    ListenerStart | ListenerStop
  | LogInfo string | LogError string
  | CreateRover
  | EnableApiControl | Arm | Disarm | DisableApiControl
  | SetControls real real real
  | Sleep real
  | OsExit nat

datatype error = CallRaised

text \<open>
  The other thread writes \<open>rover_state.keys_pressed\<close> and \<open>rover_state.running\<close>.
  The loop is run on the list of the iterations it makes: one \<open>tick_in\<close> for each
  time \<open>while rover_state.running\<close> read \<open>True\<close>, holding the key set that
  iteration saw and whether its \<open>set_rover_controls\<close> raises if called. After the
  last element the flag reads \<open>False\<close> and the loop is left.
\<close>

record tick_in =
  keys_pressed :: "key set"
  send_raises :: bool

text \<open>Whether the calls of the shutdown sequence raise.\<close>

record cleanup_in =
  stop_raises :: bool
  disarm_raises :: bool
  disable_raises :: bool

definition emit :: "event list \<Rightarrow> event list \<times> 'r \<Rightarrow> event list \<times> 'r" where
  "emit es r = (es @ fst r, snd r)"

text \<open>
  The body of \<open>while rover_state.running\<close>. In the chase variant the send is inside
  \<^verbatim>\<open>try: ... except Exception as e: pass\<close>; in the px4 variant it is not, and
  an exception leaves the loop (\<open>Inl\<close>). Both end the iteration with
  \<open>await asyncio.sleep(0.02)\<close>. The loop returns its variables when the flag is
  read \<open>False\<close>.
\<close>

fun keyboard_ticks :: "variant \<Rightarrow> actuators \<Rightarrow> tick_in list \<Rightarrow> event list \<times> (error + actuators)" where
  "keyboard_ticks v a [] = ([], Inr a)"
| "keyboard_ticks v a (t # ts) =
     (let (a', controls_updated) = ramp_tick v a (keys_pressed t) in
      if send_due a' controls_updated then
        (if send_raises t \<and> v = Px4 then
           ([SetControls (engine a') (steer a') (brake a')], Inl CallRaised)
         else
           emit [SetControls (engine a') (steer a') (brake a'), Sleep (2 / 100)]
             (keyboard_ticks v a' ts))
      else emit [Sleep (2 / 100)] (keyboard_ticks v a' ts))"

text \<open>
  The three calls after the loop, stopping at the first that raises:
  \<^verbatim>\<open>
  await rover.set_rover_controls(engine=0.0, steering_angle=0.0, brake=1.0)
  rover.disarm()
  rover.disable_api_control()
  \<close>
  The boolean is whether one of them raised.
\<close>

definition stop_and_release :: "cleanup_in \<Rightarrow> event list \<times> bool" where
  "stop_and_release c =
     (if stop_raises c then ([SetControls 0 0 1], True)
      else if disarm_raises c then ([SetControls 0 0 1, Disarm], True)
      else if disable_raises c then ([SetControls 0 0 1, Disarm, DisableApiControl], True)
      else ([SetControls 0 0 1, Disarm, DisableApiControl], False))"

text \<open>The code after the loop. The chase variant wraps the three calls in
  \<^verbatim>\<open>try: ... except: pass\<close>; the px4 variant lets the exception through.\<close>

definition cleanup :: "variant \<Rightarrow> cleanup_in \<Rightarrow> event list \<times> (error + unit)" where
  "cleanup v c =
     (let (es, raised) = stop_and_release c in
      ([ListenerStop, LogInfo ''Rover teleop: disarming & disabling API control.''] @ es,
       if raised \<and> v = Px4 then Inl CallRaised else Inr ()))"

text \<open>What the function does before the loop: the px4 variant logs two lines after
  starting the listener, the chase variant one.\<close>

fun loop_start :: "variant \<Rightarrow> event list" where
  "loop_start Px4 =
     [ListenerStart,
      LogInfo ''Rover controls (Global): ARROW KEYS to move, SPACE=brake, Q=quit'',
      LogInfo ''You can now click on the AirSim window and control the rover!'']"
| "loop_start Chase =
     [ListenerStart,
      LogInfo ''Rover controls (Global): ARROW KEYS to move, SPACE=brake, Q=quit'']"

text \<open>\<open>rover_keyboard_loop\<close> of the two edge-set variants.\<close>

definition rover_keyboard_loop :: "variant \<Rightarrow> tick_in list \<Rightarrow> cleanup_in \<Rightarrow> event list \<times> (error + unit)" where
  "rover_keyboard_loop v ts c =
     emit (loop_start v)
       (case keyboard_ticks v neutral ts of
          (es, Inl e) \<Rightarrow> (es, Inl e)
        | (es, Inr a) \<Rightarrow> emit es (cleanup v c))"

text \<open>Whether the calls before the loop raise.\<close>

record setup_in =
  rover_raises :: bool
  enable_raises :: bool
  arm_raises :: bool

text \<open>
  The thread entry point of \<open>px4_keyboard_drone_rover.py\<close>:
  \<^verbatim>\<open>
  try:
      rover = projectairsim.Rover(client, world, rover_name)
      projectairsim_log().info("Rover: enabling API & arming")
      rover.enable_api_control()
      rover.arm()
      asyncio.run(rover_keyboard_loop(rover))
  except Exception as e:
      projectairsim_log().error(f"Rover keyboard control exception: {e}", exc_info=True)
      os._exit(1)
  \<close>
\<close>

definition on_exception :: "event list" where
  "on_exception = [LogError ''Rover keyboard control exception'', OsExit 1]"

definition start_rover_keyboard_control :: "setup_in \<Rightarrow> tick_in list \<Rightarrow> cleanup_in \<Rightarrow> event list" where
  "start_rover_keyboard_control s ts c =
     (if rover_raises s then [CreateRover] @ on_exception
      else if enable_raises s then
        [CreateRover, LogInfo ''Rover: enabling API & arming'', EnableApiControl] @ on_exception
      else if arm_raises s then
        [CreateRover, LogInfo ''Rover: enabling API & arming'', EnableApiControl, Arm] @ on_exception
      else
        [CreateRover, LogInfo ''Rover: enabling API & arming'', EnableApiControl, Arm] @
        (case rover_keyboard_loop Px4 ts c of
           (es, Inl e) \<Rightarrow> es @ on_exception
         | (es, Inr u) \<Rightarrow> es))"

text \<open>
  The thread entry point of \<open>px4_keyboard_drone_rover_chase.py\<close>:
  \<^verbatim>\<open>
  try:
      asyncio.run(rover_keyboard_loop(rover))
  except Exception as e:
      projectairsim_log().error(f"Rover loop exception: {e}", exc_info=True)
      os._exit(1)
  \<close>
\<close>

definition run_rover_async_loop :: "tick_in list \<Rightarrow> cleanup_in \<Rightarrow> event list" where
  "run_rover_async_loop ts c =
     (case rover_keyboard_loop Chase ts c of
        (es, Inl e) \<Rightarrow> es @ [LogError ''Rover loop exception'', OsExit 1]
      | (es, Inr u) \<Rightarrow> es)"

section \<open>The polled single-key loop\<close>

text \<open>The constants of \<open>xbox_keyboard_drone_rover.py\<close>. The four bounds are the
  same in all three files.\<close>

definition XBOX_ENGINE_STEP :: real where "XBOX_ENGINE_STEP = 1 / 10"
definition XBOX_STEER_STEP :: real where "XBOX_STEER_STEP = 15 / 100"
definition ENGINE_MIN :: real where "ENGINE_MIN = - 1"
definition ENGINE_MAX :: real where "ENGINE_MAX = 1"
definition STEER_MIN :: real where "STEER_MIN = - 1"
definition STEER_MAX :: real where "STEER_MAX = 1"

text \<open>
  The \<open>if\<close>/\<open>elif\<close> chain on the byte that \<open>msvcrt.getch()\<close> returned, but for
  the quit branch. A byte that no branch matches changes nothing.
\<close>

definition apply_key :: "actuators \<Rightarrow> char \<Rightarrow> actuators" where
  "apply_key a key =
     (if key \<in> {CHR ''w'', CHR ''W''} then
        a\<lparr>brake := 0, engine := min (engine a + XBOX_ENGINE_STEP) ENGINE_MAX\<rparr>
      else if key \<in> {CHR ''s'', CHR ''S''} then
        a\<lparr>brake := 0, engine := max (engine a - XBOX_ENGINE_STEP) ENGINE_MIN\<rparr>
      else if key \<in> {CHR ''a'', CHR ''A''} then
        a\<lparr>steer := max (steer a - XBOX_STEER_STEP) STEER_MIN\<rparr>
      else if key \<in> {CHR ''d'', CHR ''D''} then
        a\<lparr>steer := min (steer a + XBOX_STEER_STEP) STEER_MAX\<rparr>
      else if key = CHR '' '' then
        a\<lparr>brake := 1, engine := 0\<rparr>
      else if key = CHR ''0'' then
        a\<lparr>brake := 0, steer := 0, engine := 0\<rparr>
      else a)"

text \<open>One poll: \<open>key_hit\<close> is \<open>None\<close> when \<open>msvcrt.kbhit()\<close> is false, else the
  byte read; \<open>task_raises\<close> is whether the send of that tick raises.\<close>

record poll_in =
  key_hit :: "char option"
  task_raises :: bool

text \<open>
  The body of \<open>while running\<close>. \<open>q\<close> or \<open>Q\<close> logs, clears \<open>running\<close> and
  \<open>continue\<close>s, so the loop is left without a send and without the sleep. Any other
  key is followed by the send and the sleep. The result is \<open>None\<close> when the polls
  run out while \<open>running\<close> is still true.
\<close>

fun xbox_ticks :: "actuators \<Rightarrow> poll_in list \<Rightarrow> event list \<times> (error + actuators) option" where
  "xbox_ticks a [] = ([], None)"
| "xbox_ticks a (p # ps) =
     (case key_hit p of
        None \<Rightarrow> emit [Sleep (5 / 100)] (xbox_ticks a ps)
      | Some key \<Rightarrow>
          if key \<in> {CHR ''q'', CHR ''Q''} then
            ([LogInfo ''Rover teleop: Q pressed, stopping.''], Some (Inr a))
          else
            (let a' = apply_key a key in
             if task_raises p then
               ([SetControls (engine a') (steer a') (brake a')], Some (Inl CallRaised))
             else
               emit [SetControls (engine a') (steer a') (brake a'), Sleep (5 / 100)]
                 (xbox_ticks a' ps)))"

text \<open>
  The code after the loop in the xbox variant:
  \<^verbatim>\<open>
  projectairsim_log().info("Rover teleop: disarming & disabling API control.")
  rover.disarm()
  rover.disable_api_control()
  \<close>
\<close>

definition xbox_cleanup :: "cleanup_in \<Rightarrow> event list \<times> (error + unit)" where
  "xbox_cleanup c =
     (if disarm_raises c then
        ([LogInfo ''Rover teleop: disarming & disabling API control.'', Disarm], Inl CallRaised)
      else if disable_raises c then
        ([LogInfo ''Rover teleop: disarming & disabling API control.'', Disarm, DisableApiControl],
         Inl CallRaised)
      else
        ([LogInfo ''Rover teleop: disarming & disabling API control.'', Disarm, DisableApiControl],
         Inr ()))"

text \<open>\<open>rover_keyboard_loop\<close> of the xbox variant.\<close>

definition xbox_rover_keyboard_loop :: "poll_in list \<Rightarrow> cleanup_in \<Rightarrow> event list \<times> (error + unit) option" where
  "xbox_rover_keyboard_loop ps c =
     emit [LogInfo ''Rover keyboard controls: W/S=throttle, A/D=steer, SPACE=brake, 0=reset, Q=quit'']
       (case xbox_ticks neutral ps of
          (es, None) \<Rightarrow> (es, None)
        | (es, Some (Inl e)) \<Rightarrow> (es, Some (Inl e))
        | (es, Some (Inr a)) \<Rightarrow>
            (let (es', r) = xbox_cleanup c in (es @ es', Some r)))"

text \<open>
  The thread entry point of \<open>xbox_keyboard_drone_rover.py\<close>: as in the px4
  script, but the handler only logs,
  \<^verbatim>\<open>
  except Exception as e:
      projectairsim_log().error(f"Rover keyboard control exception: {e}", exc_info=True)
  \<close>
  The result is \<open>None\<close> when the polls run out while the loop is still running.
\<close>

definition xbox_start_rover_keyboard_control :: "setup_in \<Rightarrow> poll_in list \<Rightarrow> cleanup_in \<Rightarrow> event list option" where
  "xbox_start_rover_keyboard_control s ps c =
     (if rover_raises s then
        Some [CreateRover, LogError ''Rover keyboard control exception'']
      else if enable_raises s then
        Some [CreateRover, LogInfo ''Rover: enabling API & arming'', EnableApiControl,
              LogError ''Rover keyboard control exception'']
      else if arm_raises s then
        Some [CreateRover, LogInfo ''Rover: enabling API & arming'', EnableApiControl, Arm,
              LogError ''Rover keyboard control exception'']
      else
        (case xbox_rover_keyboard_loop ps c of
           (es, None) \<Rightarrow> None
         | (es, Some (Inl e)) \<Rightarrow>
             Some ([CreateRover, LogInfo ''Rover: enabling API & arming'', EnableApiControl, Arm] @
                   es @ [LogError ''Rover keyboard control exception''])
         | (es, Some (Inr u)) \<Rightarrow>
             Some ([CreateRover, LogInfo ''Rover: enabling API & arming'', EnableApiControl, Arm] @
                   es)))"

section \<open>Bounds and the last command\<close>

text \<open>The bounds of the actuator fields: engine and steering in \<open>[-1, 1]\<close>, brake
  in \<open>[0, 1]\<close>; on the loop variables and on the arguments of a command.\<close>

definition in_bounds :: "actuators \<Rightarrow> bool" where
  "in_bounds a \<longleftrightarrow>
     - 1 \<le> engine a \<and> engine a \<le> 1 \<and> - 1 \<le> steer a \<and> steer a \<le> 1 \<and>
     0 \<le> brake a \<and> brake a \<le> 1"

fun command_in_bounds :: "event \<Rightarrow> bool" where
  "command_in_bounds (SetControls e s b) \<longleftrightarrow>
     - 1 \<le> e \<and> e \<le> 1 \<and> - 1 \<le> s \<and> s \<le> 1 \<and> 0 \<le> b \<and> b \<le> 1"
| "command_in_bounds _ \<longleftrightarrow> True"

text \<open>The arguments of the last \<open>set_rover_controls\<close> call of a run, if there is
  one.\<close>

fun last_command :: "event list \<Rightarrow> (real \<times> real \<times> real) option" where
  "last_command [] = None"
| "last_command (SetControls e s b # es) =
     (case last_command es of None \<Rightarrow> Some (e, s, b) | Some c \<Rightarrow> Some c)"
| "last_command (_ # es) = last_command es"

fun is_log :: "event \<Rightarrow> bool" where
  "is_log (LogInfo m) \<longleftrightarrow> True"
| "is_log (LogError m) \<longleftrightarrow> True"
| "is_log _ \<longleftrightarrow> False"

text \<open>The same inputs with every per-tick send succeeding.\<close>

definition no_failures :: "tick_in list \<Rightarrow> tick_in list" where
  "no_failures ts = map (\<lambda>t. t\<lparr>send_raises := False\<rparr>) ts"

section \<open>The phased connection and the verification of the topics\<close>

text \<open>
  \<open>main\<close> of \<open>px4_keyboard_drone_rover_chase.py\<close> and of \<open>client_inspect.py\<close>
  are straight-line code up to the final loop. Their calls are the events below, in
  program order. Client objects are numbered in the order the program constructs
  them: \<open>client_loader\<close> is 0, \<open>client\<close> is 1. \<open>NewClient n a t s\<close> is
  \<open>projectairsim.ProjectAirSimClient(address=a, port_topics=t, port_services=s)\<close>
  giving object \<open>n\<close>; \<open>NewWorld n\<close>, \<open>NewDrone n\<close>, \<open>NewRover n\<close> and
  \<open>Subscribe n\<close> are handed client \<open>n\<close>.
\<close>

datatype call =
    Info string | InfoNum string nat string | Warn string | Err string
  | Print string | PrintNum string nat string
  | NewClient nat string int int
  | Connect nat | Disconnect nat
  | NewWorld nat string string
  | TimeSleep nat
  | SetWorldClient nat
  | NewDrone nat string | NewRover nat string
  | RoverEnableApiControl | RoverArm
  | NewImageDisplay | AddChaseCam string | Subscribe nat string
  | StartRoverThread | ImageDisplayStart | ImageDisplayStop

text \<open>The command-line arguments.\<close>

record args =
  address :: string
  sceneconfigfile :: string
  simconfigpath :: string
  topicsport :: int
  servicesport :: int

text \<open>Straight-line code: each call with whether it raises. The run stops at the
  first call that raises, which is the last event.\<close>

fun run_calls :: "(call \<times> bool) list \<Rightarrow> call list \<times> (error + unit)" where
  "run_calls [] = ([], Inr ())"
| "run_calls ((c, raises) # rest) =
     (if raises then ([c], Inl CallRaised)
      else (c # fst (run_calls rest), snd (run_calls rest)))"

datatype script = Chase_main | Inspect_main

text \<open>Which of the calls on the two clients and of the scene load raise.\<close>

record phase_in =
  connect_a_raises :: bool
  world_raises :: bool
  disconnect_a_raises :: bool
  connect_b_raises :: bool

text \<open>
  The two phases, \<open>px4_keyboard_drone_rover_chase.py\<close> lines 143 to 179 and
  \<open>client_inspect.py\<close> lines 16 to 36. The scripts differ in their log lines and
  in whether the third line is logged before or after the disconnect.
\<close>

fun phased_connect :: "script \<Rightarrow> args \<Rightarrow> phase_in \<Rightarrow> (call \<times> bool) list" where
  "phased_connect Chase_main ar p =
     [(Info ''>>> PHASE 1: Connecting to load scene...'', False),
      (NewClient 0 (address ar) (topicsport ar) (servicesport ar), False),
      (Connect 0, connect_a_raises p),
      (NewWorld 0 (sceneconfigfile ar) (simconfigpath ar), world_raises p),
      (Info ''>>> PHASE 2: Waiting 8 seconds for robots to spawn...'', False),
      (TimeSleep 8, False),
      (Info ''>>> PHASE 3: Reconnecting to refresh topic list...'', False),
      (Disconnect 0, disconnect_a_raises p),
      (NewClient 1 (address ar) (topicsport ar) (servicesport ar), False),
      (Connect 1, connect_b_raises p),
      (SetWorldClient 1, False)]"
| "phased_connect Inspect_main ar p =
     [(Info ''>>> PHASE 1: Loading Scene...'', False),
      (NewClient 0 (address ar) (topicsport ar) (servicesport ar), False),
      (Connect 0, connect_a_raises p),
      (NewWorld 0 (sceneconfigfile ar) (simconfigpath ar), world_raises p),
      (Info ''>>> Waiting 8 seconds for Rover spawn...'', False),
      (TimeSleep 8, False),
      (Disconnect 0, disconnect_a_raises p),
      (Info ''>>> PHASE 2: Fresh Connection & Inspection...'', False),
      (NewClient 1 (address ar) (topicsport ar) (servicesport ar), False),
      (Connect 1, connect_b_raises p),
      (SetWorldClient 1, False)]"

text \<open>Python's \<open>sub in s\<close> on strings: \<open>sub\<close> occurs in \<open>s\<close> as a contiguous
  run of characters.\<close>

fun starts_with :: "string \<Rightarrow> string \<Rightarrow> bool" where
  "starts_with s [] \<longleftrightarrow> True"
| "starts_with [] (c # sub) \<longleftrightarrow> False"
| "starts_with (d # s) (c # sub) \<longleftrightarrow> d = c \<and> starts_with s sub"

fun str_in :: "string \<Rightarrow> string \<Rightarrow> bool" where
  "str_in sub [] \<longleftrightarrow> sub = []"
| "str_in sub (d # s) \<longleftrightarrow> starts_with (d # s) sub \<or> str_in sub s"

text \<open>An entry of \<open>client.topics_info_list\<close>; the code reads its \<open>name\<close>.\<close>

record topic_info =
  name :: string

text \<open>
  The verification step of the chase script, on \<open>client.topics_info_list\<close>
  (\<open>None\<close> when the client has no such attribute):
  \<^verbatim>\<open>
  if hasattr(client, 'topics_info_list'):
      projectairsim_log().info(f"DEBUG: Found {len(client.topics_info_list)} topics.")
      rover_topics = [t for t in client.topics_info_list if "Rover1" in t.name]
      if not rover_topics:
          projectairsim_log().error("CRITICAL: 'Rover1' topics NOT found in simulator list!")
          projectairsim_log().error("Please check your JSON config files for naming errors.")
      else:
          projectairsim_log().info(f"DEBUG: Verified {len(rover_topics)} topics for Rover1.")
  \<close>
\<close>

definition verify_rover_topics :: "topic_info list option \<Rightarrow> call list" where
  "verify_rover_topics attr =
     (case attr of
        None \<Rightarrow> []
      | Some topics_info_list \<Rightarrow>
          (let rover_topics = filter (\<lambda>t. str_in ''Rover1'' (name t)) topics_info_list in
           InfoNum ''DEBUG: Found '' (length topics_info_list) '' topics.'' #
           (if rover_topics = [] then
              [Err ''CRITICAL: 'Rover1' topics NOT found in simulator list!'',
               Err ''Please check your JSON config files for naming errors.'']
            else
              [InfoNum ''DEBUG: Verified '' (length rover_topics) '' topics for Rover1.''])))"

text \<open>
  The search of \<open>client_inspect.py\<close>, on the keys of \<open>client.topics\<close> (\<open>None\<close>
  when the client has no such attribute):
  \<^verbatim>\<open>
  rover_topics = []
  if hasattr(client, 'topics'):
      for key in client.topics.keys():
          if "Rover" in key:
              rover_topics.append(key)
  if len(rover_topics) > 0:
      print(f"FOUND {len(rover_topics)} TOPICS MATCHING 'Rover':")
      for t in sorted(rover_topics):
          print(f" - {t}")
  else:
      print("CRITICAL: Client has ZERO topics matching 'Rover'.")
  \<close>
\<close>

definition search_rover_topics :: "string list option \<Rightarrow> call list" where
  "search_rover_topics attr =
     (let rover_topics = (case attr of None \<Rightarrow> []
                          | Some keys \<Rightarrow> filter (\<lambda>key. str_in ''Rover'' key) keys) in
      if length rover_topics > 0 then
        PrintNum ''FOUND '' (length rover_topics) '' TOPICS MATCHING 'Rover':'' #
        map (\<lambda>t. Print ('' - '' @ t)) (sort rover_topics)
      else [Print ''CRITICAL: Client has ZERO topics matching 'Rover'.''])"

text \<open>What the rest of the chase script's \<open>main\<close> depends on: which constructors
  and rover calls raise, whether the \<open>Chase\<close> camera is among the sensors, how
  often the final loop sleeps before \<open>rover_state.running\<close> reads false, and
  whether a \<open>KeyboardInterrupt\<close> ends it.\<close>

record rest_in =
  drone_raises :: bool
  drone_has_chase :: bool
  rover_ctor_raises :: bool
  rover_sensors_raises :: bool
  rover_enable_raises :: bool
  rover_arm_raises :: bool
  rover_has_chase :: bool
  main_sleeps :: nat
  interrupted :: bool

definition system_ready :: "call list" where
  "system_ready =
     [Info ''================================================================'',
      Info ''System Ready.'',
      Info ''1. Drone1: Use QGroundControl (QGC) to Fly.'',
      Info ''2. Rover1: Click anywhere and use ARROW KEYS.'',
      Info ''3. Check the two pop-up windows for camera feeds.'',
      Info ''Press 'Q' to quit.'',
      Info ''================================================================'']"

text \<open>The \<open>try\<close> block that sets the rover up (lines 214 to 243); an exception
  in it is caught and logged, and \<open>main\<close> goes on without the rover thread.\<close>

definition rover_setup :: "rest_in \<Rightarrow> call list" where
  "rover_setup r =
     (case run_calls
        [(NewRover 1 ''Rover1'', rover_ctor_raises r),
         (NewDrone 1 ''Rover1'', rover_sensors_raises r),
         (Info ''Rover: enabling API & arming'', False),
         (RoverEnableApiControl, rover_enable_raises r),
         (RoverArm, rover_arm_raises r),
         (AddChaseCam ''Rover View'', False),
         (if rover_has_chase r then Subscribe 1 ''Rover View''
          else Warn ''Rover1 'Chase' camera not found! (Sensors might be empty)'', False),
         (StartRoverThread, False)] of
        (cs, Inl e) \<Rightarrow>
          cs @ [Err ''Failed to initialize Rover'', Err ''Continuing with Drone only...'']
      | (cs, Inr u) \<Rightarrow> cs)"

text \<open>Lines 192 to 265 of the chase script: the drone, the rover, the final loop
  \<^verbatim>\<open>while rover_state.running: time.sleep(1)\<close> and its \<open>finally\<close>.\<close>

definition chase_rest :: "rest_in \<Rightarrow> call list \<times> (error + unit)" where
  "chase_rest r =
     (case run_calls
        [(NewImageDisplay, False),
         (Info ''Initializing Drone1...'', False),
         (NewDrone 1 ''Drone1'', drone_raises r),
         (AddChaseCam ''Drone View'', False),
         (if drone_has_chase r then Subscribe 1 ''Drone View''
          else Warn ''Drone1 'Chase' camera not found! Check connection.'', False)] of
        (cs, Inl e) \<Rightarrow> (cs, Inl e)
      | (cs, Inr u) \<Rightarrow>
          (cs @ [Info ''Initializing Rover1...''] @ rover_setup r @
           [ImageDisplayStart] @ system_ready @
           replicate (main_sleeps r) (TimeSleep 1) @
           (if interrupted r then [Info ''Exiting...''] else []) @
           [ImageDisplayStop, Disconnect 1, Print ''Client disconnected.''],
           Inr ()))"

text \<open>\<open>main\<close> of \<open>px4_keyboard_drone_rover_chase.py\<close>, after the argument
  parsing.\<close>

definition chase_main :: "args \<Rightarrow> phase_in \<Rightarrow> topic_info list option \<Rightarrow> rest_in \<Rightarrow> call list \<times> (error + unit)" where
  "chase_main ar p attr r =
     (case run_calls (phased_connect Chase_main ar p) of
        (cs, Inl e) \<Rightarrow> (cs, Inl e)
      | (cs, Inr u) \<Rightarrow>
          (cs @ verify_rover_topics attr @ fst (chase_rest r), snd (chase_rest r)))"





section \<open>Binary64 arithmetic\<close>

text \<open>
  A Python float is an IEEE 754 binary64 number, and \<open>x + y\<close> and \<open>x - y\<close> are
  the exact sum and difference rounded to the nearest such number, ties to the even
  significand. The finite binary64 numbers are modelled as the reals they denote
  (the two zeros are one value); a result that overflows to an infinity is
  \<open>None\<close>.
\<close>

text \<open>The nearest integer, ties to the even one.\<close>

definition round_half_even :: "real \<Rightarrow> int" where
  "round_half_even q =
     (let f = \<lfloor>q\<rfloor>; d = q - of_int f in
      if d < 1 / 2 then f else if 1 / 2 < d then f + 1
      else if even f then f else f + 1)"

text \<open>
  The exponent of a magnitude \<open>m\<close>. Below 1, \<open>halvings m 0\<close> is the least \<open>k\<close>
  with \<open>1 \<le> m * 2 ^ k\<close>, at most 1022 (from there on the numbers are subnormal
  and keep the spacing \<open>2 ^ -1074\<close>). From 1 on, \<open>doublings m 0\<close> is the least
  \<open>j\<close> with \<open>m < 2 ^ (j + 1)\<close>, and 1024 when \<open>m\<close> is \<open>2 ^ 1024\<close> or more, which
  no finite binary64 number is.
\<close>

function halvings :: "real \<Rightarrow> nat \<Rightarrow> nat" where
  "halvings m k = (if 1022 \<le> k \<or> 1 \<le> m * 2 ^ k then k else halvings m (Suc k))"
  by pat_completeness auto
termination
  by (relation "measure (\<lambda>(m, k). 1022 - k)") auto

function doublings :: "real \<Rightarrow> nat \<Rightarrow> nat" where
  "doublings m j = (if 1024 \<le> j \<or> m < 2 * 2 ^ j then j else doublings m (Suc j))"
  by pat_completeness auto
termination
  by (relation "measure (\<lambda>(m, j). 1024 - j)") auto

declare halvings.simps [simp del] doublings.simps [simp del]

text \<open>
  Rounding a real to binary64: a number of exponent \<open>e\<close> has 53 significant bits,
  so it is a multiple of \<open>2 ^ (e - 52)\<close>. The rounded value has overflowed when its
  magnitude is \<open>2 ^ 1024\<close> or more.
\<close>

definition fl64 :: "real \<Rightarrow> real option" where
  "fl64 x =
     (if x = 0 then Some 0
      else if \<bar>x\<bar> < 1 then
        (let k = halvings \<bar>x\<bar> 0
         in Some (of_int (round_half_even (x * 2 ^ 52 * 2 ^ k)) / (2 ^ 52 * 2 ^ k)))
      else
        (let j = doublings \<bar>x\<bar> 0;
             y = of_int (round_half_even (x * 2 ^ 52 / 2 ^ j)) * 2 ^ j / 2 ^ 52
         in if doublings \<bar>y\<bar> 0 < 1024 then Some y else None))"

text \<open>The module constants as the floats the literals denote: \<open>0.002\<close> is
  \<open>0x1.0624dd2f1a9fcp-9\<close>, \<open>0.02\<close> is \<open>0x1.47ae147ae147bp-6\<close> and \<open>0.05\<close> is
  \<open>0x1.999999999999ap-5\<close>.\<close>

fun ENGINE_STEP64 :: "variant \<Rightarrow> real" where
  "ENGINE_STEP64 Px4 = 1152921504606847 / 2 ^ 59"
| "ENGINE_STEP64 Chase = 5764607523034235 / 2 ^ 58"

definition STEER_STEP64 :: real where
  "STEER_STEP64 = 3602879701896397 / 2 ^ 56"

text \<open>The ramping branches of the loop body as in \<open>ramp\<close>, with the sum and the
  difference rounded; \<open>min\<close>, \<open>max\<close> and the comparisons are exact on floats.\<close>

definition ramp64 :: "real \<Rightarrow> real \<Rightarrow> real \<Rightarrow> (real \<times> bool) option" where
  "ramp64 step current target =
     (if current < target then
        map_option (\<lambda>s. (min s target, True)) (fl64 (current + step))
      else if current > target then
        map_option (\<lambda>d. (max d target, True)) (fl64 (current - step))
      else Some (current, False))"

text \<open>The ramping section of the loop body as in \<open>ramp_tick\<close>, in binary64. The
  targets and the brake values 0 and 1 are floats.\<close>

definition ramp_tick64 :: "variant \<Rightarrow> actuators \<Rightarrow> key set \<Rightarrow> (actuators \<times> bool) option" where
  "ramp_tick64 v a ks =
     (let (target_engine, target_steer, new_brake) = key_targets ks in
      case ramp64 (ENGINE_STEP64 v) (engine a) target_engine of
        None \<Rightarrow> None
      | Some (engine', upd_e) \<Rightarrow>
          (case ramp64 STEER_STEP64 (steer a) target_steer of
             None \<Rightarrow> None
           | Some (steer', upd_s) \<Rightarrow>
               (let (brake', upd_b) = (if brake a \<noteq> new_brake then (new_brake, True)
                                       else (brake a, False))
                in Some (\<lparr>engine = engine', steer = steer', brake = brake'\<rparr>,
                         upd_e \<or> upd_s \<or> upd_b))))"

text \<open>The loop variables after a list of ticks, one key set for each, in
  binary64.\<close>

fun ticks64 :: "variant \<Rightarrow> actuators \<Rightarrow> key set list \<Rightarrow> actuators option" where
  "ticks64 v a [] = Some a"
| "ticks64 v a (ks # rest) =
     (case ramp_tick64 v a ks of None \<Rightarrow> None | Some (a', u) \<Rightarrow> ticks64 v a' rest)"

section \<open>Properties of one tick of the edge-set loop\<close>



lemma ramp_changed:
  "0 < step \<Longrightarrow> snd (ramp step current target) \<longleftrightarrow> fst (ramp step current target) \<noteq> current"
  by (simp add: ramp_def min_def max_def)

lemma ENGINE_STEP_pos: "0 < ENGINE_STEP v"
  by (cases v) simp_all

lemma STEER_STEP_pos: "0 < STEER_STEP"
  by (simp add: STEER_STEP_def)

lemma engine_tick:
  "engine (tick_state v a ks) = fst (ramp (ENGINE_STEP v) (engine a) (fst (key_targets ks)))"
  by (simp add: tick_state_def ramp_tick_def split: prod.splits)

lemma steer_tick:
  "steer (tick_state v a ks) = fst (ramp STEER_STEP (steer a) (fst (snd (key_targets ks))))"
  by (simp add: tick_state_def ramp_tick_def split: prod.splits)

lemma brake_tick: "brake (tick_state v a ks) = snd (snd (key_targets ks))"
  by (simp add: tick_state_def ramp_tick_def split: prod.splits)

lemma updated_tick:
  "snd (ramp_tick v a ks) \<longleftrightarrow>
     snd (ramp (ENGINE_STEP v) (engine a) (fst (key_targets ks))) \<or>
     snd (ramp STEER_STEP (steer a) (fst (snd (key_targets ks)))) \<or>
     brake a \<noteq> snd (snd (key_targets ks))"
  by (simp add: ramp_tick_def split: prod.splits)

lemma targets_space: "Key_space \<in> ks \<Longrightarrow> key_targets ks = (0, 0, 1)"
  by (simp add: key_targets_def)


text \<open>
  C3. If the brake key (space) is in the key set of a tick, then on that tick the
  targets are engine 0, steering 0 and brake 1 whatever other keys are held, brake
  becomes 1 whatever it was, and engine and steering move one ramp step toward 0:
  an engine above \<open>ENGINE_STEP\<close> drops by exactly \<open>ENGINE_STEP\<close> and stays
  positive.
\<close>

theorem C3_brake_held:
  assumes "Key_space \<in> ks"
  shows "key_targets ks = (0, 0, 1)
       \<and> brake (tick_state v a ks) = 1
       \<and> engine (tick_state v a ks) =
           (if 0 < engine a then max (engine a - ENGINE_STEP v) 0
            else if engine a < 0 then min (engine a + ENGINE_STEP v) 0 else engine a)
       \<and> steer (tick_state v a ks) =
           (if 0 < steer a then max (steer a - STEER_STEP) 0
            else if steer a < 0 then min (steer a + STEER_STEP) 0 else steer a)
       \<and> (ENGINE_STEP v < engine a \<longrightarrow>
            engine (tick_state v a ks) = engine a - ENGINE_STEP v \<and> 0 < engine (tick_state v a ks))"
proof -
  have t: "key_targets ks = (0, 0, 1)"
    using assms by (rule targets_space)
  have b: "brake (tick_state v a ks) = 1"
    by (simp add: brake_tick t)
  have e: "engine (tick_state v a ks) =
           (if 0 < engine a then max (engine a - ENGINE_STEP v) 0
            else if engine a < 0 then min (engine a + ENGINE_STEP v) 0 else engine a)"
    by (simp add: engine_tick t ramp_def)
  have s: "steer (tick_state v a ks) =
           (if 0 < steer a then max (steer a - STEER_STEP) 0
            else if steer a < 0 then min (steer a + STEER_STEP) 0 else steer a)"
    by (simp add: steer_tick t ramp_def)
  have "ENGINE_STEP v < engine a \<longrightarrow>
            engine (tick_state v a ks) = engine a - ENGINE_STEP v \<and> 0 < engine (tick_state v a ks)"
    unfolding e using ENGINE_STEP_pos [of v] by (simp add: max_def)
  with t b e s show ?thesis by blast
qed

text \<open>The scenario of the specification: brake held (with the up key) while the
  engine is at 0.6, in the chase variant. Brake is 1 and the engine is 0.58.\<close>

theorem C3_brake_held_witness:
  "Key_space \<in> {Key_space, Key_up}
   \<and> key_targets {Key_space, Key_up} = (0, 0, 1)
   \<and> brake (tick_state Chase \<lparr>engine = 6 / 10, steer = 0, brake = 0\<rparr> {Key_space, Key_up}) = 1
   \<and> engine (tick_state Chase \<lparr>engine = 6 / 10, steer = 0, brake = 0\<rparr> {Key_space, Key_up}) = 58 / 100"
  using C3_brake_held [of "{Key_space, Key_up}" Chase "\<lparr>engine = 6 / 10, steer = 0, brake = 0\<rparr>"]
  by simp

text \<open>
  C6. In each tick of the edge-set loop, \<open>set_rover_controls\<close> is called if and
  only if the tick changed engine, steering or brake, or the engine is above 0.01 in
  magnitude, or the steering is. The magnitudes are those after the ramping; since
  a tick that changes nothing leaves them as they were, the condition is the same
  with the magnitudes before the tick.
\<close>

theorem C6_dispatch:
  "(tick_sends v a ks \<longleftrightarrow>
      engine (tick_state v a ks) \<noteq> engine a \<or> steer (tick_state v a ks) \<noteq> steer a \<or>
      brake (tick_state v a ks) \<noteq> brake a \<or>
      \<bar>engine (tick_state v a ks)\<bar> > 1 / 100 \<or> \<bar>steer (tick_state v a ks)\<bar> > 1 / 100)
   \<and> (tick_sends v a ks \<longleftrightarrow>
      engine (tick_state v a ks) \<noteq> engine a \<or> steer (tick_state v a ks) \<noteq> steer a \<or>
      brake (tick_state v a ks) \<noteq> brake a \<or>
      \<bar>engine a\<bar> > 1 / 100 \<or> \<bar>steer a\<bar> > 1 / 100)"
proof -
  have 1: "tick_sends v a ks \<longleftrightarrow>
      engine (tick_state v a ks) \<noteq> engine a \<or> steer (tick_state v a ks) \<noteq> steer a \<or>
      brake (tick_state v a ks) \<noteq> brake a \<or>
      \<bar>engine (tick_state v a ks)\<bar> > 1 / 100 \<or> \<bar>steer (tick_state v a ks)\<bar> > 1 / 100"
    unfolding tick_sends_def send_due_def updated_tick
    using ramp_changed [OF ENGINE_STEP_pos, of v "engine a" "fst (key_targets ks)"]
      ramp_changed [OF STEER_STEP_pos, of "steer a" "fst (snd (key_targets ks))"]
    by (auto simp: engine_tick steer_tick brake_tick)
  then have 2: "tick_sends v a ks \<longleftrightarrow>
      engine (tick_state v a ks) \<noteq> engine a \<or> steer (tick_state v a ks) \<noteq> steer a \<or>
      brake (tick_state v a ks) \<noteq> brake a \<or>
      \<bar>engine a\<bar> > 1 / 100 \<or> \<bar>steer a\<bar> > 1 / 100"
    by metis
  from 1 2 show ?thesis by (rule conjI)
qed

text \<open>Full throttle held at engine 1: the tick changes nothing and still sends,
  because the engine is above 0.01.\<close>

theorem C6_dispatch_witness:
  "tick_state Px4 \<lparr>engine = 1, steer = 0, brake = 0\<rparr> {Key_up} = \<lparr>engine = 1, steer = 0, brake = 0\<rparr>
   \<and> tick_sends Px4 \<lparr>engine = 1, steer = 0, brake = 0\<rparr> {Key_up}"
proof -
  have st: "tick_state Px4 \<lparr>engine = 1, steer = 0, brake = 0\<rparr> {Key_up} = \<lparr>engine = 1, steer = 0, brake = 0\<rparr>"
    by (simp add: tick_state_def ramp_tick_def key_targets_def ramp_def)
  show ?thesis
    using C6_dispatch [of Px4 "\<lparr>engine = 1, steer = 0, brake = 0\<rparr>" "{Key_up}"]
    unfolding st by simp
qed

section \<open>Properties of the polled single-key variant\<close>

text \<open>
  C10. In the polled single-key variant, the throttle keys \<open>w\<close>, \<open>W\<close>, \<open>s\<close>,
  \<open>S\<close> set brake to 0, whatever it was, and move the engine by one step within
  its bounds; the steering keys \<open>a\<close>, \<open>A\<close>, \<open>d\<close>, \<open>D\<close> leave brake as it was.
\<close>

theorem C10_throttle_releases_brake:
  "brake (apply_key a CHR ''w'') = 0 \<and> brake (apply_key a CHR ''W'') = 0
   \<and> brake (apply_key a CHR ''s'') = 0 \<and> brake (apply_key a CHR ''S'') = 0
   \<and> engine (apply_key a CHR ''w'') = min (engine a + XBOX_ENGINE_STEP) ENGINE_MAX
   \<and> engine (apply_key a CHR ''W'') = min (engine a + XBOX_ENGINE_STEP) ENGINE_MAX
   \<and> engine (apply_key a CHR ''s'') = max (engine a - XBOX_ENGINE_STEP) ENGINE_MIN
   \<and> engine (apply_key a CHR ''S'') = max (engine a - XBOX_ENGINE_STEP) ENGINE_MIN
   \<and> brake (apply_key a CHR ''a'') = brake a \<and> brake (apply_key a CHR ''A'') = brake a
   \<and> brake (apply_key a CHR ''d'') = brake a \<and> brake (apply_key a CHR ''D'') = brake a"
  by (simp add: apply_key_def)

text \<open>Full brake, then a throttle key: the second command carries brake 0.\<close>

lemma xbox_brake_then_throttle:
  "fst (xbox_ticks neutral
     [\<lparr>key_hit = Some CHR '' '', task_raises = False\<rparr>,
      \<lparr>key_hit = Some CHR ''w'', task_raises = False\<rparr>]) =
   [SetControls 0 0 1, Sleep (5 / 100), SetControls (1 / 10) 0 0, Sleep (5 / 100)]"
  by (simp add: neutral_def apply_key_def emit_def XBOX_ENGINE_STEP_def ENGINE_MAX_def)

section \<open>The bounds of the actuator values\<close>

lemma in_bounds_neutral: "in_bounds neutral"
  by (simp add: in_bounds_def neutral_def)

lemma targets_range:
  "fst (key_targets ks) \<in> {- 1, 0, 1} \<and> fst (snd (key_targets ks)) \<in> {- 1, 0, 1} \<and>
   snd (snd (key_targets ks)) \<in> {0, 1}"
  by (simp add: key_targets_def)

lemma ramp_between:
  "0 \<le> step \<Longrightarrow> lo \<le> current \<Longrightarrow> current \<le> hi \<Longrightarrow> lo \<le> target \<Longrightarrow> target \<le> hi \<Longrightarrow>
   lo \<le> fst (ramp step current target) \<and> fst (ramp step current target) \<le> hi"
  by (simp add: ramp_def min_def max_def)

lemma tick_in_bounds:
  assumes "in_bounds a"
  shows "in_bounds (tick_state v a ks)"
proof -
  have te: "- 1 \<le> fst (key_targets ks) \<and> fst (key_targets ks) \<le> 1"
    using targets_range [of ks] by auto
  have ts: "- 1 \<le> fst (snd (key_targets ks)) \<and> fst (snd (key_targets ks)) \<le> 1"
    using targets_range [of ks] by auto
  have tb: "0 \<le> snd (snd (key_targets ks)) \<and> snd (snd (key_targets ks)) \<le> 1"
    using targets_range [of ks] by auto
  have e: "- 1 \<le> engine (tick_state v a ks) \<and> engine (tick_state v a ks) \<le> 1"
    unfolding engine_tick using assms te ENGINE_STEP_pos [of v]
    by (intro ramp_between) (simp_all add: in_bounds_def)
  have s: "- 1 \<le> steer (tick_state v a ks) \<and> steer (tick_state v a ks) \<le> 1"
    unfolding steer_tick using assms ts STEER_STEP_pos
    by (intro ramp_between) (simp_all add: in_bounds_def)
  from e s tb show ?thesis
    by (simp add: in_bounds_def brake_tick)
qed

lemma keyboard_ticks_Cons:
  "keyboard_ticks v a (t # ts) =
     (if tick_sends v a (keys_pressed t) then
        (if send_raises t \<and> v = Px4 then
           ([SetControls (engine (tick_state v a (keys_pressed t))) (steer (tick_state v a (keys_pressed t)))
               (brake (tick_state v a (keys_pressed t)))], Inl CallRaised)
         else
           emit [SetControls (engine (tick_state v a (keys_pressed t))) (steer (tick_state v a (keys_pressed t)))
               (brake (tick_state v a (keys_pressed t))), Sleep (2 / 100)]
             (keyboard_ticks v (tick_state v a (keys_pressed t)) ts))
      else emit [Sleep (2 / 100)] (keyboard_ticks v (tick_state v a (keys_pressed t)) ts))"
  by (simp add: tick_sends_def tick_state_def split: prod.splits)

lemma keyboard_ticks_bounds:
  "in_bounds a \<Longrightarrow>
   list_all command_in_bounds (fst (keyboard_ticks v a ts)) \<and>
   (\<forall>a'. snd (keyboard_ticks v a ts) = Inr a' \<longrightarrow> in_bounds a')"
proof (induction ts arbitrary: a)
  case Nil
  then show ?case by simp
next
  case (Cons t ts)
  let ?a' = "tick_state v a (keys_pressed t)"
  have b: "in_bounds ?a'" using Cons.prems by (rule tick_in_bounds)
  have c: "command_in_bounds (SetControls (engine ?a') (steer ?a') (brake ?a'))"
    using b by (simp add: in_bounds_def)
  from Cons.IH [OF b] c show ?case
    unfolding keyboard_ticks_Cons by (auto simp: emit_def)
qed

lemma stop_and_release_bounds: "list_all command_in_bounds (fst (stop_and_release c))"
  by (simp add: stop_and_release_def)

lemma cleanup_bounds: "list_all command_in_bounds (fst (cleanup v c))"
  by (simp add: cleanup_def stop_and_release_def)

lemma loop_start_bounds: "list_all command_in_bounds (loop_start v)"
  by (cases v) simp_all

lemma rover_keyboard_loop_bounds: "list_all command_in_bounds (fst (rover_keyboard_loop v ts c))"
proof -
  have k: "list_all command_in_bounds (fst (keyboard_ticks v neutral ts))"
    using keyboard_ticks_bounds [OF in_bounds_neutral] by blast
  show ?thesis
  proof (cases "keyboard_ticks v neutral ts")
    case (Pair es r)
    with k cleanup_bounds [of v c] loop_start_bounds [of v] show ?thesis
      by (cases r) (simp_all add: rover_keyboard_loop_def emit_def)
  qed
qed

lemma apply_key_in_bounds: "in_bounds a \<Longrightarrow> in_bounds (apply_key a key)"
  by (simp add: apply_key_def in_bounds_def XBOX_ENGINE_STEP_def XBOX_STEER_STEP_def
      ENGINE_MIN_def ENGINE_MAX_def STEER_MIN_def STEER_MAX_def)

lemma xbox_ticks_bounds:
  "in_bounds a \<Longrightarrow>
   list_all command_in_bounds (fst (xbox_ticks a ps)) \<and>
   (\<forall>a'. snd (xbox_ticks a ps) = Some (Inr a') \<longrightarrow> in_bounds a')"
proof (induction ps arbitrary: a)
  case Nil
  then show ?case by simp
next
  case (Cons p ps)
  show ?case
  proof (cases "key_hit p")
    case None
    with Cons.IH [OF Cons.prems] show ?thesis by (simp add: emit_def)
  next
    case (Some key)
    have b: "in_bounds (apply_key a key)" using Cons.prems by (rule apply_key_in_bounds)
    from Cons.IH [OF b] b Cons.prems Some show ?thesis
      by (simp add: emit_def Let_def in_bounds_def)
  qed
qed

lemma xbox_cleanup_bounds: "list_all command_in_bounds (fst (xbox_cleanup c))"
  by (simp add: xbox_cleanup_def)

lemma xbox_loop_bounds: "list_all command_in_bounds (fst (xbox_rover_keyboard_loop ps c))"
proof -
  have k: "list_all command_in_bounds (fst (xbox_ticks neutral ps))"
    using xbox_ticks_bounds [OF in_bounds_neutral] by blast
  show ?thesis
  proof (cases "xbox_ticks neutral ps")
    case (Pair es r)
    with k xbox_cleanup_bounds [of c] show ?thesis
      by (cases "xbox_cleanup c")
        (auto simp: xbox_rover_keyboard_loop_def emit_def split: option.splits sum.splits)
  qed
qed

text \<open>
  C4. From the neutral initial state the loop variables stay within bounds on every
  tick of every variant, engine and steering in \<open>[-1, 1]\<close> and brake in \<open>[0, 1]\<close>:
  the neutral state is within bounds, a tick of the edge-set variants and a key of
  the polled variant keep a state within bounds, so the state after any number of
  ticks is within bounds; and every command a run dispatches, the final stop command
  included, has its three fields within bounds, whichever calls raise.
\<close>

theorem C4_bounds:
  "in_bounds neutral
   \<and> (in_bounds a \<longrightarrow> in_bounds (tick_state v a ks))
   \<and> (in_bounds a \<longrightarrow> in_bounds (apply_key a key))
   \<and> (\<forall>a'. snd (keyboard_ticks v neutral ts) = Inr a' \<longrightarrow> in_bounds a')
   \<and> (\<forall>a'. snd (xbox_ticks neutral ps) = Some (Inr a') \<longrightarrow> in_bounds a')
   \<and> list_all command_in_bounds (fst (rover_keyboard_loop v ts c))
   \<and> list_all command_in_bounds (fst (xbox_rover_keyboard_loop ps c))"
  using in_bounds_neutral tick_in_bounds [of a v ks] apply_key_in_bounds [of a key]
    keyboard_ticks_bounds [OF in_bounds_neutral, of v ts]
    xbox_ticks_bounds [OF in_bounds_neutral, of ps]
    rover_keyboard_loop_bounds [of v ts c] xbox_loop_bounds [of ps c]
  by blast

text \<open>One tick of the chase variant with the up key held, then quit.\<close>

theorem C4_bounds_witness:
  "in_bounds neutral
   \<and> in_bounds (tick_state Chase neutral {Key_up})
   \<and> in_bounds (apply_key neutral CHR ''w'')
   \<and> fst (rover_keyboard_loop Chase [\<lparr>keys_pressed = {Key_up}, send_raises = False\<rparr>]
        \<lparr>stop_raises = False, disarm_raises = False, disable_raises = False\<rparr>) =
      [ListenerStart,
       LogInfo ''Rover controls (Global): ARROW KEYS to move, SPACE=brake, Q=quit'',
       SetControls (2 / 100) 0 0, Sleep (2 / 100),
       ListenerStop, LogInfo ''Rover teleop: disarming & disabling API control.'',
       SetControls 0 0 1, Disarm, DisableApiControl]
   \<and> list_all command_in_bounds
        (fst (rover_keyboard_loop Chase [\<lparr>keys_pressed = {Key_up}, send_raises = False\<rparr>]
          \<lparr>stop_raises = False, disarm_raises = False, disable_raises = False\<rparr>))"
proof -
  have n: "in_bounds neutral"
    by (simp add: in_bounds_def neutral_def)
  have ev: "fst (rover_keyboard_loop Chase [\<lparr>keys_pressed = {Key_up}, send_raises = False\<rparr>]
        \<lparr>stop_raises = False, disarm_raises = False, disable_raises = False\<rparr>) =
      [ListenerStart,
       LogInfo ''Rover controls (Global): ARROW KEYS to move, SPACE=brake, Q=quit'',
       SetControls (2 / 100) 0 0, Sleep (2 / 100),
       ListenerStop, LogInfo ''Rover teleop: disarming & disabling API control.'',
       SetControls 0 0 1, Disarm, DisableApiControl]"
    by (simp add: rover_keyboard_loop_def neutral_def ramp_tick_def key_targets_def ramp_def
        STEER_STEP_def send_due_def emit_def cleanup_def stop_and_release_def)
  from n ev
    C4_bounds [of neutral Chase "{Key_up}" "CHR ''w''"
      "[\<lparr>keys_pressed = {Key_up}, send_raises = False\<rparr>]" "[]"
      "\<lparr>stop_raises = False, disarm_raises = False, disable_raises = False\<rparr>"]
  show ?thesis by blast
qed

section \<open>Fifty ticks of full throttle\<close>







section \<open>Leaving the loop\<close>

lemma ticks_no_release:
  "Disarm \<notin> set (fst (keyboard_ticks v a ts)) \<and>
   DisableApiControl \<notin> set (fst (keyboard_ticks v a ts))"
  by (induction ts arbitrary: a)
    (auto simp: keyboard_ticks_Cons emit_def simp del: keyboard_ticks.simps(2))

lemma loop_start_no_release:
  "Disarm \<notin> set (loop_start v) \<and> DisableApiControl \<notin> set (loop_start v)"
  by (cases v) simp_all

text \<open>The two edge-set variants, when the loop is left by the flag and no call of
  the shutdown raises: the run ends with the stop command, \<open>disarm\<close> and
  \<open>disable_api_control\<close>, and neither of the two is called before.\<close>

lemma edge_set_stop_then_release:
  assumes "snd (keyboard_ticks v neutral ts) = Inr a"
    and "\<not> stop_raises c" and "\<not> disarm_raises c" and "\<not> disable_raises c"
  shows "\<exists>es. rover_keyboard_loop v ts c =
           (es @ [SetControls 0 0 1, Disarm, DisableApiControl], Inr ())
         \<and> Disarm \<notin> set es \<and> DisableApiControl \<notin> set es"
proof -
  obtain ks where k: "keyboard_ticks v neutral ts = (ks, Inr a)"
    using assms(1) by (cases "keyboard_ticks v neutral ts") simp
  let ?es = "loop_start v @ ks @
      [ListenerStop, LogInfo ''Rover teleop: disarming & disabling API control.'']"
  have "rover_keyboard_loop v ts c = (?es @ [SetControls 0 0 1, Disarm, DisableApiControl], Inr ())"
    using assms(2-4)
    by (simp add: rover_keyboard_loop_def k emit_def cleanup_def stop_and_release_def)
  moreover have "Disarm \<notin> set ?es \<and> DisableApiControl \<notin> set ?es"
    using ticks_no_release [of v neutral ts] loop_start_no_release [of v] by (simp add: k)
  ultimately show ?thesis by blast
qed

text \<open>In the chase variant the three calls of the shutdown are inside one
  \<open>try\<close>: when the stop command raises, the exception is swallowed and the rover
  is neither disarmed nor released.\<close>

lemma chase_stop_raises_no_release:
  "cleanup Chase \<lparr>stop_raises = True, disarm_raises = False, disable_raises = False\<rparr> =
     ([ListenerStop, LogInfo ''Rover teleop: disarming & disabling API control.'',
       SetControls 0 0 1], Inr ())"
  by (simp add: cleanup_def stop_and_release_def)

text \<open>
  C2. The claim is that in every variant the last command before the release of
  the rover is engine 0, steering 0, brake 1. The polled variant sends no such
  command: with the key \<open>w\<close> and then \<open>q\<close>, and no call raising, it sends
  engine 0.1, steering 0, brake 0, and on \<open>q\<close> it logs, disarms and disables API
  control. The last command of the run is engine 0.1 with the brake off.
\<close>

theorem C2_xbox_quit_without_stop:
  "xbox_rover_keyboard_loop
     [\<lparr>key_hit = Some CHR ''w'', task_raises = False\<rparr>,
      \<lparr>key_hit = Some CHR ''q'', task_raises = False\<rparr>]
     \<lparr>stop_raises = False, disarm_raises = False, disable_raises = False\<rparr> =
   ([LogInfo ''Rover keyboard controls: W/S=throttle, A/D=steer, SPACE=brake, 0=reset, Q=quit'',
     SetControls (1 / 10) 0 0, Sleep (5 / 100),
     LogInfo ''Rover teleop: Q pressed, stopping.'',
     LogInfo ''Rover teleop: disarming & disabling API control.'',
     Disarm, DisableApiControl], Some (Inr ()))
   \<and> last_command (fst (xbox_rover_keyboard_loop
     [\<lparr>key_hit = Some CHR ''w'', task_raises = False\<rparr>,
      \<lparr>key_hit = Some CHR ''q'', task_raises = False\<rparr>]
     \<lparr>stop_raises = False, disarm_raises = False, disable_raises = False\<rparr>)) =
     Some (1 / 10, 0, 0)"
  by (simp add: xbox_rover_keyboard_loop_def neutral_def apply_key_def emit_def xbox_cleanup_def
      XBOX_ENGINE_STEP_def ENGINE_MAX_def)

section \<open>A send that raises\<close>

lemma chase_ignores_failures:
  "keyboard_ticks Chase a ts = keyboard_ticks Chase a (no_failures ts)"
  by (induction ts arbitrary: a)
    (simp_all add: keyboard_ticks_Cons emit_def no_failures_def del: keyboard_ticks.simps(2))

lemma chase_never_raises: "snd (keyboard_ticks Chase a ts) \<noteq> Inl e"
  by (induction ts arbitrary: a)
    (simp_all add: keyboard_ticks_Cons emit_def del: keyboard_ticks.simps(2))

lemma ticks_no_log: "\<not> list_ex is_log (fst (keyboard_ticks v a ts))"
  by (induction ts arbitrary: a)
    (simp_all add: keyboard_ticks_Cons emit_def del: keyboard_ticks.simps(2))

lemma px4_failure_leaves_loop:
  "tick_sends Px4 a (keys_pressed t) \<Longrightarrow> send_raises t \<Longrightarrow>
   keyboard_ticks Px4 a (t # ts) =
     ([SetControls (engine (tick_state Px4 a (keys_pressed t)))
         (steer (tick_state Px4 a (keys_pressed t))) (brake (tick_state Px4 a (keys_pressed t)))],
      Inl CallRaised)"
  by (simp add: keyboard_ticks_Cons del: keyboard_ticks.simps(2))

lemma px4_exception_is_fatal:
  assumes "snd (rover_keyboard_loop Px4 ts c) = Inl e"
    and "\<not> rover_raises s" and "\<not> enable_raises s" and "\<not> arm_raises s"
  shows "start_rover_keyboard_control s ts c =
     [CreateRover, LogInfo ''Rover: enabling API & arming'', EnableApiControl, Arm] @
     fst (rover_keyboard_loop Px4 ts c) @
     [LogError ''Rover keyboard control exception'', OsExit 1]"
  using assms
  by (cases "rover_keyboard_loop Px4 ts c")
    (simp add: start_rover_keyboard_control_def on_exception_def)

lemma xbox_failure_leaves_loop:
  "key_hit p = Some key \<Longrightarrow> key \<notin> {CHR ''q'', CHR ''Q''} \<Longrightarrow> task_raises p \<Longrightarrow>
   xbox_ticks a (p # ps) =
     ([SetControls (engine (apply_key a key)) (steer (apply_key a key)) (brake (apply_key a key))],
      Some (Inl CallRaised))"
  by (simp add: Let_def)

lemma xbox_exception_is_logged:
  assumes "snd (xbox_rover_keyboard_loop ps c) = Some (Inl e)"
    and "\<not> rover_raises s" and "\<not> enable_raises s" and "\<not> arm_raises s"
  shows "xbox_start_rover_keyboard_control s ps c =
     Some ([CreateRover, LogInfo ''Rover: enabling API & arming'', EnableApiControl, Arm] @
           fst (xbox_rover_keyboard_loop ps c) @
           [LogError ''Rover keyboard control exception''])"
proof (cases "xbox_rover_keyboard_loop ps c")
  case (Pair es r)
  with assms show ?thesis
    by (simp add: xbox_start_rover_keyboard_control_def)
qed

lemma px4_failing_run:
  "rover_keyboard_loop Px4
        [\<lparr>keys_pressed = {Key_up}, send_raises = True\<rparr>,
         \<lparr>keys_pressed = {Key_up}, send_raises = False\<rparr>]
        \<lparr>stop_raises = False, disarm_raises = False, disable_raises = False\<rparr> =
      ([ListenerStart,
        LogInfo ''Rover controls (Global): ARROW KEYS to move, SPACE=brake, Q=quit'',
        LogInfo ''You can now click on the AirSim window and control the rover!'',
        SetControls (2 / 1000) 0 0], Inl CallRaised)"
  by (simp add: rover_keyboard_loop_def neutral_def ramp_tick_def key_targets_def ramp_def
        STEER_STEP_def send_due_def emit_def)

lemma xbox_failing_run:
  "xbox_rover_keyboard_loop
     [\<lparr>key_hit = Some CHR ''w'', task_raises = True\<rparr>,
      \<lparr>key_hit = Some CHR ''q'', task_raises = False\<rparr>]
     \<lparr>stop_raises = False, disarm_raises = False, disable_raises = False\<rparr> =
   ([LogInfo ''Rover keyboard controls: W/S=throttle, A/D=steer, SPACE=brake, 0=reset, Q=quit'',
     SetControls (1 / 10) 0 0], Some (Inl CallRaised))"
  by (simp add: xbox_rover_keyboard_loop_def neutral_def apply_key_def emit_def
      XBOX_ENGINE_STEP_def ENGINE_MAX_def)

text \<open>
  C5, as the claim states it, fails in two ways. In the chase variant the failed
  send of the first tick leaves no trace: the run has the two log lines of a run
  without failure and no other. In the px4 variant the failed send of the first tick
  ends the loop: the second tick is not run, the thread entry point logs the
  exception and the process exits with status 1.
\<close>

theorem C5_counterexample:
  "run_rover_async_loop [\<lparr>keys_pressed = {Key_up}, send_raises = True\<rparr>]
       \<lparr>stop_raises = False, disarm_raises = False, disable_raises = False\<rparr> =
     [ListenerStart,
      LogInfo ''Rover controls (Global): ARROW KEYS to move, SPACE=brake, Q=quit'',
      SetControls (2 / 100) 0 0, Sleep (2 / 100),
      ListenerStop, LogInfo ''Rover teleop: disarming & disabling API control.'',
      SetControls 0 0 1, Disarm, DisableApiControl]
   \<and> start_rover_keyboard_control
       \<lparr>rover_raises = False, enable_raises = False, arm_raises = False\<rparr>
       [\<lparr>keys_pressed = {Key_up}, send_raises = True\<rparr>,
        \<lparr>keys_pressed = {Key_up}, send_raises = False\<rparr>]
       \<lparr>stop_raises = False, disarm_raises = False, disable_raises = False\<rparr> =
     [CreateRover, LogInfo ''Rover: enabling API & arming'', EnableApiControl, Arm,
      ListenerStart,
      LogInfo ''Rover controls (Global): ARROW KEYS to move, SPACE=brake, Q=quit'',
      LogInfo ''You can now click on the AirSim window and control the rover!'',
      SetControls (2 / 1000) 0 0,
      LogError ''Rover keyboard control exception'', OsExit 1]"
proof -
  have chase: "run_rover_async_loop [\<lparr>keys_pressed = {Key_up}, send_raises = True\<rparr>]
       \<lparr>stop_raises = False, disarm_raises = False, disable_raises = False\<rparr> =
     [ListenerStart,
      LogInfo ''Rover controls (Global): ARROW KEYS to move, SPACE=brake, Q=quit'',
      SetControls (2 / 100) 0 0, Sleep (2 / 100),
      ListenerStop, LogInfo ''Rover teleop: disarming & disabling API control.'',
      SetControls 0 0 1, Disarm, DisableApiControl]"
    by (simp add: run_rover_async_loop_def rover_keyboard_loop_def neutral_def ramp_tick_def
        key_targets_def ramp_def STEER_STEP_def send_due_def emit_def cleanup_def
        stop_and_release_def)
  have px4: "start_rover_keyboard_control
       \<lparr>rover_raises = False, enable_raises = False, arm_raises = False\<rparr>
       [\<lparr>keys_pressed = {Key_up}, send_raises = True\<rparr>,
        \<lparr>keys_pressed = {Key_up}, send_raises = False\<rparr>]
       \<lparr>stop_raises = False, disarm_raises = False, disable_raises = False\<rparr> =
     [CreateRover, LogInfo ''Rover: enabling API & arming'', EnableApiControl, Arm,
      ListenerStart,
      LogInfo ''Rover controls (Global): ARROW KEYS to move, SPACE=brake, Q=quit'',
      LogInfo ''You can now click on the AirSim window and control the rover!'',
      SetControls (2 / 1000) 0 0,
      LogError ''Rover keyboard control exception'', OsExit 1]"
    by (simp add: start_rover_keyboard_control_def px4_failing_run on_exception_def)
  from chase px4 show ?thesis by (rule conjI)
qed

text \<open>
  C5, amended. In the chase variant a send that raises is caught and discarded: the
  loop never ends with an exception, it makes the same calls and reaches the same
  state as if every send had succeeded, and it logs nothing. In the px4 variant a
  due send that raises ends the loop at that send, and when the loop ends with an
  exception the thread entry point logs an error and exits the process with status
  1. In the polled variant a send that raises ends the loop at that send, and the
  thread entry point logs an error.
\<close>

theorem C5_send_failure:
  "keyboard_ticks Chase a ts = keyboard_ticks Chase a (no_failures ts)
   \<and> (\<forall>e. snd (keyboard_ticks Chase a ts) \<noteq> Inl e)
   \<and> \<not> list_ex is_log (fst (keyboard_ticks Chase a ts))
   \<and> (tick_sends Px4 a (keys_pressed t) \<and> send_raises t \<longrightarrow>
        keyboard_ticks Px4 a (t # ts') =
          ([SetControls (engine (tick_state Px4 a (keys_pressed t)))
              (steer (tick_state Px4 a (keys_pressed t)))
              (brake (tick_state Px4 a (keys_pressed t)))], Inl CallRaised))
   \<and> (snd (rover_keyboard_loop Px4 ts c) = Inl e \<and>
        \<not> rover_raises s \<and> \<not> enable_raises s \<and> \<not> arm_raises s \<longrightarrow>
        start_rover_keyboard_control s ts c =
          [CreateRover, LogInfo ''Rover: enabling API & arming'', EnableApiControl, Arm] @
          fst (rover_keyboard_loop Px4 ts c) @
          [LogError ''Rover keyboard control exception'', OsExit 1])
   \<and> (key_hit p = Some key \<and> key \<notin> {CHR ''q'', CHR ''Q''} \<and> task_raises p \<longrightarrow>
        xbox_ticks a (p # ps') =
          ([SetControls (engine (apply_key a key)) (steer (apply_key a key))
              (brake (apply_key a key))], Some (Inl CallRaised)))
   \<and> (snd (xbox_rover_keyboard_loop ps c) = Some (Inl e) \<and>
        \<not> rover_raises s \<and> \<not> enable_raises s \<and> \<not> arm_raises s \<longrightarrow>
        xbox_start_rover_keyboard_control s ps c =
          Some ([CreateRover, LogInfo ''Rover: enabling API & arming'', EnableApiControl, Arm] @
                fst (xbox_rover_keyboard_loop ps c) @
                [LogError ''Rover keyboard control exception'']))"
  using chase_ignores_failures [of a ts] chase_never_raises [of a ts] ticks_no_log [of Chase a ts]
    px4_failure_leaves_loop [of a t ts'] px4_exception_is_fatal [of ts c e s]
    xbox_failure_leaves_loop [of p key a ps'] xbox_exception_is_logged [of ps c e s]
  by blast

text \<open>Two ticks with the up key held, the first send raising; and the keys \<open>w\<close>
  and \<open>q\<close>, the send of \<open>w\<close> raising.\<close>

theorem C5_send_failure_witness:
  "tick_sends Px4 neutral {Key_up}
   \<and> keyboard_ticks Px4 neutral
        [\<lparr>keys_pressed = {Key_up}, send_raises = True\<rparr>,
         \<lparr>keys_pressed = {Key_up}, send_raises = False\<rparr>] =
      ([SetControls (2 / 1000) 0 0], Inl CallRaised)
   \<and> keyboard_ticks Chase neutral
        [\<lparr>keys_pressed = {Key_up}, send_raises = True\<rparr>,
         \<lparr>keys_pressed = {Key_up}, send_raises = False\<rparr>] =
      ([SetControls (2 / 100) 0 0, Sleep (2 / 100), SetControls (4 / 100) 0 0, Sleep (2 / 100)],
       Inr \<lparr>engine = 4 / 100, steer = 0, brake = 0\<rparr>)
   \<and> snd (rover_keyboard_loop Px4
        [\<lparr>keys_pressed = {Key_up}, send_raises = True\<rparr>,
         \<lparr>keys_pressed = {Key_up}, send_raises = False\<rparr>]
        \<lparr>stop_raises = False, disarm_raises = False, disable_raises = False\<rparr>) = Inl CallRaised
   \<and> start_rover_keyboard_control
        \<lparr>rover_raises = False, enable_raises = False, arm_raises = False\<rparr>
        [\<lparr>keys_pressed = {Key_up}, send_raises = True\<rparr>,
         \<lparr>keys_pressed = {Key_up}, send_raises = False\<rparr>]
        \<lparr>stop_raises = False, disarm_raises = False, disable_raises = False\<rparr> =
      [CreateRover, LogInfo ''Rover: enabling API & arming'', EnableApiControl, Arm,
       ListenerStart,
       LogInfo ''Rover controls (Global): ARROW KEYS to move, SPACE=brake, Q=quit'',
       LogInfo ''You can now click on the AirSim window and control the rover!'',
       SetControls (2 / 1000) 0 0,
       LogError ''Rover keyboard control exception'', OsExit 1]
   \<and> xbox_ticks neutral
        [\<lparr>key_hit = Some CHR ''w'', task_raises = True\<rparr>,
         \<lparr>key_hit = Some CHR ''q'', task_raises = False\<rparr>] =
      ([SetControls (1 / 10) 0 0], Some (Inl CallRaised))
   \<and> xbox_start_rover_keyboard_control
        \<lparr>rover_raises = False, enable_raises = False, arm_raises = False\<rparr>
        [\<lparr>key_hit = Some CHR ''w'', task_raises = True\<rparr>,
         \<lparr>key_hit = Some CHR ''q'', task_raises = False\<rparr>]
        \<lparr>stop_raises = False, disarm_raises = False, disable_raises = False\<rparr> =
      Some [CreateRover, LogInfo ''Rover: enabling API & arming'', EnableApiControl, Arm,
        LogInfo ''Rover keyboard controls: W/S=throttle, A/D=steer, SPACE=brake, 0=reset, Q=quit'',
        SetControls (1 / 10) 0 0,
        LogError ''Rover keyboard control exception'']"
proof -
  let ?tf = "\<lparr>keys_pressed = {Key_up}, send_raises = True\<rparr>"
  let ?ts = "[?tf, \<lparr>keys_pressed = {Key_up}, send_raises = False\<rparr>]"
  let ?pf = "\<lparr>key_hit = Some CHR ''w'', task_raises = True\<rparr>"
  let ?ps = "[?pf, \<lparr>key_hit = Some CHR ''q'', task_raises = False\<rparr>]"
  let ?c = "\<lparr>stop_raises = False, disarm_raises = False, disable_raises = False\<rparr>"
  let ?s = "\<lparr>rover_raises = False, enable_raises = False, arm_raises = False\<rparr>"
  have sends: "tick_sends Px4 neutral {Key_up}"
    by (simp add: tick_sends_def tick_state_def neutral_def ramp_tick_def key_targets_def
        ramp_def STEER_STEP_def send_due_def)
  have st: "tick_state Px4 neutral {Key_up} = \<lparr>engine = 2 / 1000, steer = 0, brake = 0\<rparr>"
    by (simp add: tick_state_def neutral_def ramp_tick_def key_targets_def ramp_def STEER_STEP_def)
  have key: "apply_key neutral CHR ''w'' = \<lparr>engine = 1 / 10, steer = 0, brake = 0\<rparr>"
    by (simp add: apply_key_def neutral_def XBOX_ENGINE_STEP_def ENGINE_MAX_def)
  have chase_ok: "keyboard_ticks Chase neutral (no_failures ?ts) =
      ([SetControls (2 / 100) 0 0, Sleep (2 / 100), SetControls (4 / 100) 0 0, Sleep (2 / 100)],
       Inr \<lparr>engine = 4 / 100, steer = 0, brake = 0\<rparr>)"
    by (simp add: no_failures_def neutral_def ramp_tick_def key_targets_def ramp_def
        STEER_STEP_def send_due_def emit_def)
  have raised: "snd (rover_keyboard_loop Px4 ?ts ?c) = Inl CallRaised"
    by (simp add: px4_failing_run)
  have loop: "fst (rover_keyboard_loop Px4 ?ts ?c) =
       [ListenerStart,
        LogInfo ''Rover controls (Global): ARROW KEYS to move, SPACE=brake, Q=quit'',
        LogInfo ''You can now click on the AirSim window and control the rover!'',
        SetControls (2 / 1000) 0 0]"
    by (simp add: px4_failing_run)
  have xraised: "snd (xbox_rover_keyboard_loop ?ps ?c) = Some (Inl CallRaised)"
    by (simp add: xbox_failing_run)
  have xloop: "fst (xbox_rover_keyboard_loop ?ps ?c) =
       [LogInfo ''Rover keyboard controls: W/S=throttle, A/D=steer, SPACE=brake, 0=reset, Q=quit'',
        SetControls (1 / 10) 0 0]"
    by (simp add: xbox_failing_run)
  note T = C5_send_failure [of neutral ?ts ?tf
      "[\<lparr>keys_pressed = {Key_up}, send_raises = False\<rparr>]" ?c CallRaised ?s
      ?pf "CHR ''w''" "[\<lparr>key_hit = Some CHR ''q'', task_raises = False\<rparr>]" ?ps]
  have chase: "keyboard_ticks Chase neutral ?ts =
      ([SetControls (2 / 100) 0 0, Sleep (2 / 100), SetControls (4 / 100) 0 0, Sleep (2 / 100)],
       Inr \<lparr>engine = 4 / 100, steer = 0, brake = 0\<rparr>)"
    using T [THEN conjunct1] unfolding chase_ok .
  have "tick_sends Px4 neutral (keys_pressed ?tf) \<and> send_raises ?tf"
    using sends by simp
  with T have "keyboard_ticks Px4 neutral ?ts =
      ([SetControls (engine (tick_state Px4 neutral (keys_pressed ?tf)))
          (steer (tick_state Px4 neutral (keys_pressed ?tf)))
          (brake (tick_state Px4 neutral (keys_pressed ?tf)))], Inl CallRaised)"
    by blast
  then have px4: "keyboard_ticks Px4 neutral ?ts = ([SetControls (2 / 1000) 0 0], Inl CallRaised)"
    by (simp only: tick_in.select_convs st actuators.select_convs)
  have nr: "\<not> rover_raises ?s \<and> \<not> enable_raises ?s \<and> \<not> arm_raises ?s"
    by simp
  from T raised nr have "start_rover_keyboard_control ?s ?ts ?c =
          [CreateRover, LogInfo ''Rover: enabling API & arming'', EnableApiControl, Arm] @
          fst (rover_keyboard_loop Px4 ?ts ?c) @
          [LogError ''Rover keyboard control exception'', OsExit 1]"
    by blast
  then have start: "start_rover_keyboard_control ?s ?ts ?c =
      [CreateRover, LogInfo ''Rover: enabling API & arming'', EnableApiControl, Arm,
       ListenerStart,
       LogInfo ''Rover controls (Global): ARROW KEYS to move, SPACE=brake, Q=quit'',
       LogInfo ''You can now click on the AirSim window and control the rover!'',
       SetControls (2 / 1000) 0 0,
       LogError ''Rover keyboard control exception'', OsExit 1]"
    unfolding loop by simp
  have "key_hit ?pf = Some CHR ''w'' \<and> CHR ''w'' \<notin> {CHR ''q'', CHR ''Q''} \<and> task_raises ?pf"
    by simp
  with T have "xbox_ticks neutral ?ps =
      ([SetControls (engine (apply_key neutral CHR ''w'')) (steer (apply_key neutral CHR ''w''))
          (brake (apply_key neutral CHR ''w''))], Some (Inl CallRaised))"
    by blast
  then have xbox: "xbox_ticks neutral ?ps = ([SetControls (1 / 10) 0 0], Some (Inl CallRaised))"
    by (simp only: key actuators.select_convs)
  from T xraised nr have "xbox_start_rover_keyboard_control ?s ?ps ?c =
          Some ([CreateRover, LogInfo ''Rover: enabling API & arming'', EnableApiControl, Arm] @
                fst (xbox_rover_keyboard_loop ?ps ?c) @
                [LogError ''Rover keyboard control exception''])"
    by blast
  then have xstart: "xbox_start_rover_keyboard_control ?s ?ps ?c =
      Some [CreateRover, LogInfo ''Rover: enabling API & arming'', EnableApiControl, Arm,
        LogInfo ''Rover keyboard controls: W/S=throttle, A/D=steer, SPACE=brake, 0=reset, Q=quit'',
        SetControls (1 / 10) 0 0,
        LogError ''Rover keyboard control exception'']"
    unfolding xloop by simp
  from sends px4 chase raised start xbox xstart show ?thesis by blast
qed

section \<open>The verification of the topics\<close>

lemma starts_with_iff: "starts_with s sub \<longleftrightarrow> (\<exists>post. s = sub @ post)"
  by (induction s sub rule: starts_with.induct) auto

lemma str_in_iff: "str_in sub s \<longleftrightarrow> (\<exists>pre post. s = pre @ sub @ post)"
proof (induction s)
  case Nil
  show ?case by auto
next
  case (Cons d s)
  note IH = Cons.IH
  show ?case
  proof
    assume "str_in sub (d # s)"
    then consider "starts_with (d # s) sub" | "str_in sub s" by auto
    then show "\<exists>pre post. d # s = pre @ sub @ post"
    proof cases
      case 1
      then obtain post where "d # s = sub @ post" by (auto simp: starts_with_iff)
      then have "d # s = [] @ sub @ post" by simp
      then show ?thesis by blast
    next
      case 2
      then obtain pre post where "s = pre @ sub @ post" using IH by blast
      then have "d # s = (d # pre) @ sub @ post" by simp
      then show ?thesis by blast
    qed
  next
    assume "\<exists>pre post. d # s = pre @ sub @ post"
    then obtain pre post where e: "d # s = pre @ sub @ post" by blast
    show "str_in sub (d # s)"
    proof (cases pre)
      case Nil
      with e have "starts_with (d # s) sub" by (auto simp: starts_with_iff)
      then show ?thesis by simp
    next
      case (Cons x pre')
      with e have "s = pre' @ sub @ post" by simp
      then have "str_in sub s" using IH by blast
      then show ?thesis by simp
    qed
  qed
qed



lemma verify_outcome: "snd (chase_main ar p attr r) = snd (chase_main ar p attr' r)"
proof -
  obtain cs res where e: "run_calls (phased_connect Chase_main ar p) = (cs, res)"
    by (cases "run_calls (phased_connect Chase_main ar p)")
  show ?thesis unfolding chase_main_def e by (cases res) simp_all
qed

lemma chase_main_continues:
  assumes "snd (run_calls (phased_connect Chase_main ar p)) = Inr ()"
  shows "fst (chase_main ar p attr r) =
     fst (run_calls (phased_connect Chase_main ar p)) @ verify_rover_topics attr @ fst (chase_rest r)"
proof -
  obtain cs res where e: "run_calls (phased_connect Chase_main ar p) = (cs, res)"
    by (cases "run_calls (phased_connect Chase_main ar p)")
  from assms have "res = Inr ()" unfolding e by simp
  then show ?thesis unfolding chase_main_def e by simp
qed

lemma count_topics:
  "length (filter (\<lambda>t. str_in sub (name t)) topics) =
   card {i. i < length topics \<and> (\<exists>pre post. name (topics ! i) = pre @ sub @ post)}"
  by (simp only: length_filter_conv_card str_in_iff)

lemma count_keys:
  "length (filter (\<lambda>key. str_in sub key) keys) =
   card {i. i < length keys \<and> (\<exists>pre post. keys ! i = pre @ sub @ post)}"
  by (simp only: length_filter_conv_card str_in_iff)

lemma verify_some:
  "verify_rover_topics (Some topics) =
     InfoNum ''DEBUG: Found '' (length topics) '' topics.'' #
     (if length (filter (\<lambda>t. str_in ''Rover1'' (name t)) topics) = 0 then
        [Err ''CRITICAL: 'Rover1' topics NOT found in simulator list!'',
         Err ''Please check your JSON config files for naming errors.'']
      else [InfoNum ''DEBUG: Verified '' (length (filter (\<lambda>t. str_in ''Rover1'' (name t)) topics))
              '' topics for Rover1.''])"
  unfolding verify_rover_topics_def Let_def option.case length_0_conv ..

lemma if_positive: "(if 0 < (k::nat) then a else b) = (if k = 0 then b else a)"
  by simp

lemma search_some:
  "search_rover_topics (Some keys) =
     (if length (filter (\<lambda>key. str_in ''Rover'' key) keys) = 0 then
        [Print ''CRITICAL: Client has ZERO topics matching 'Rover'.'']
      else PrintNum ''FOUND '' (length (filter (\<lambda>key. str_in ''Rover'' key) keys))
             '' TOPICS MATCHING 'Rover':'' #
           map (\<lambda>t. Print ('' - '' @ t)) (sort (filter (\<lambda>key. str_in ''Rover'' key) keys)))"
  unfolding search_rover_topics_def Let_def option.case if_positive ..


text \<open>
  C7. For every topic list the client shows after the reconnect, the verification
  step of the chase script counts exactly the entries whose name contains
  \<open>Rover1\<close> (the name is \<open>pre @ ''Rover1'' @ post\<close> for some \<open>pre\<close> and
  \<open>post\<close>): with a count of zero it logs the two critical lines at error level,
  with a count \<open>n > 0\<close> it logs \<open>n\<close> as verified. The search of
  \<open>client_inspect.py\<close> does the same for \<open>Rover\<close> on the keys of the topic
  dictionary, printing instead of logging. The step cannot fail: whether \<open>main\<close>
  ends with an exception does not depend on the list, and when the two phases went
  through, the calls of the rest of \<open>main\<close> follow the verification whatever it
  found.
\<close>

theorem C7_verification:
  fixes topics :: "topic_info list" and keys :: "string list"
  defines "n \<equiv> card {i. i < length topics \<and> (\<exists>pre post. name (topics ! i) = pre @ ''Rover1'' @ post)}"
    and "m \<equiv> card {i. i < length keys \<and> (\<exists>pre post. keys ! i = pre @ ''Rover'' @ post)}"
  shows "verify_rover_topics (Some topics) =
           InfoNum ''DEBUG: Found '' (length topics) '' topics.'' #
           (if n = 0 then
              [Err ''CRITICAL: 'Rover1' topics NOT found in simulator list!'',
               Err ''Please check your JSON config files for naming errors.'']
            else [InfoNum ''DEBUG: Verified '' n '' topics for Rover1.''])
       \<and> search_rover_topics (Some keys) =
           (if m = 0 then [Print ''CRITICAL: Client has ZERO topics matching 'Rover'.'']
            else PrintNum ''FOUND '' m '' TOPICS MATCHING 'Rover':'' #
                 map (\<lambda>t. Print ('' - '' @ t)) (sort (filter (\<lambda>key. str_in ''Rover'' key) keys)))
       \<and> snd (chase_main ar p (Some topics) r) = snd (chase_main ar p None r)
       \<and> (snd (run_calls (phased_connect Chase_main ar p)) = Inr () \<longrightarrow>
            fst (chase_main ar p (Some topics) r) =
              fst (run_calls (phased_connect Chase_main ar p)) @
              verify_rover_topics (Some topics) @ fst (chase_rest r))"
proof -
  have v: "verify_rover_topics (Some topics) =
           InfoNum ''DEBUG: Found '' (length topics) '' topics.'' #
           (if n = 0 then
              [Err ''CRITICAL: 'Rover1' topics NOT found in simulator list!'',
               Err ''Please check your JSON config files for naming errors.'']
            else [InfoNum ''DEBUG: Verified '' n '' topics for Rover1.''])"
    unfolding n_def count_topics [symmetric] by (rule verify_some)
  have s: "search_rover_topics (Some keys) =
           (if m = 0 then [Print ''CRITICAL: Client has ZERO topics matching 'Rover'.'']
            else PrintNum ''FOUND '' m '' TOPICS MATCHING 'Rover':'' #
                 map (\<lambda>t. Print ('' - '' @ t)) (sort (filter (\<lambda>key. str_in ''Rover'' key) keys)))"
    unfolding m_def count_keys [symmetric] by (rule search_some)
  have o: "snd (chase_main ar p (Some topics) r) = snd (chase_main ar p None r)"
    by (rule verify_outcome)
  have c: "snd (run_calls (phased_connect Chase_main ar p)) = Inr () \<longrightarrow>
            fst (chase_main ar p (Some topics) r) =
              fst (run_calls (phased_connect Chase_main ar p)) @
              verify_rover_topics (Some topics) @ fst (chase_rest r)"
    using chase_main_continues [of ar p "Some topics" r] by (rule impI)
  from v s o c show ?thesis by (intro conjI)
qed

text \<open>A list with no \<open>Rover1\<close> entry, after two phases without failure: the
  critical lines are logged and \<open>main\<close> goes on. A list with one such entry logs
  the count 1.\<close>

theorem C7_verification_witness:
  "snd (run_calls (phased_connect Chase_main
        \<lparr>address = ''127.0.0.1'', sceneconfigfile = ''scene.jsonc'',
           simconfigpath = ''sim_config/'', topicsport = 8989, servicesport = 8990\<rparr>
        \<lparr>connect_a_raises = False, world_raises = False, disconnect_a_raises = False,
           connect_b_raises = False\<rparr>)) = Inr ()
   \<and> verify_rover_topics (Some [\<lparr>name = ''/Rover1/imu''\<rparr>, \<lparr>name = ''/Drone1/imu''\<rparr>]) =
       [InfoNum ''DEBUG: Found '' 2 '' topics.'',
        InfoNum ''DEBUG: Verified '' 1 '' topics for Rover1.'']
   \<and> verify_rover_topics (Some [\<lparr>name = ''/Drone1/imu''\<rparr>]) =
       [InfoNum ''DEBUG: Found '' 1 '' topics.'',
        Err ''CRITICAL: 'Rover1' topics NOT found in simulator list!'',
        Err ''Please check your JSON config files for naming errors.'']
   \<and> fst (chase_main
        \<lparr>address = ''127.0.0.1'', sceneconfigfile = ''scene.jsonc'',
           simconfigpath = ''sim_config/'', topicsport = 8989, servicesport = 8990\<rparr>
        \<lparr>connect_a_raises = False, world_raises = False, disconnect_a_raises = False,
           connect_b_raises = False\<rparr>
        (Some [\<lparr>name = ''/Drone1/imu''\<rparr>])
        \<lparr>drone_raises = False, drone_has_chase = True, rover_ctor_raises = True,
           rover_sensors_raises = False, rover_enable_raises = False, rover_arm_raises = False,
           rover_has_chase = False, main_sleeps = 1, interrupted = False\<rparr>) =
       fst (run_calls (phased_connect Chase_main
        \<lparr>address = ''127.0.0.1'', sceneconfigfile = ''scene.jsonc'',
           simconfigpath = ''sim_config/'', topicsport = 8989, servicesport = 8990\<rparr>
        \<lparr>connect_a_raises = False, world_raises = False, disconnect_a_raises = False,
           connect_b_raises = False\<rparr>)) @
       [InfoNum ''DEBUG: Found '' 1 '' topics.'',
        Err ''CRITICAL: 'Rover1' topics NOT found in simulator list!'',
        Err ''Please check your JSON config files for naming errors.''] @
       fst (chase_rest
        \<lparr>drone_raises = False, drone_has_chase = True, rover_ctor_raises = True,
           rover_sensors_raises = False, rover_enable_raises = False, rover_arm_raises = False,
           rover_has_chase = False, main_sleeps = 1, interrupted = False\<rparr>)"
proof -
  let ?ar = "\<lparr>address = ''127.0.0.1'', sceneconfigfile = ''scene.jsonc'',
           simconfigpath = ''sim_config/'', topicsport = 8989, servicesport = 8990\<rparr>"
  let ?p = "\<lparr>connect_a_raises = False, world_raises = False, disconnect_a_raises = False,
           connect_b_raises = False\<rparr>"
  let ?r = "\<lparr>drone_raises = False, drone_has_chase = True, rover_ctor_raises = True,
           rover_sensors_raises = False, rover_enable_raises = False, rover_arm_raises = False,
           rover_has_chase = False, main_sleeps = 1, interrupted = False\<rparr>"
  have ok: "snd (run_calls (phased_connect Chase_main ?ar ?p)) = Inr ()"
    by simp
  have v2: "verify_rover_topics (Some [\<lparr>name = ''/Rover1/imu''\<rparr>, \<lparr>name = ''/Drone1/imu''\<rparr>]) =
       [InfoNum ''DEBUG: Found '' 2 '' topics.'',
        InfoNum ''DEBUG: Verified '' 1 '' topics for Rover1.'']"
    by (simp add: verify_rover_topics_def)
  have v0: "verify_rover_topics (Some [\<lparr>name = ''/Drone1/imu''\<rparr>]) =
       [InfoNum ''DEBUG: Found '' 1 '' topics.'',
        Err ''CRITICAL: 'Rover1' topics NOT found in simulator list!'',
        Err ''Please check your JSON config files for naming errors.'']"
    by (simp add: verify_rover_topics_def)
  note T = C7_verification [where topics = "[\<lparr>name = ''/Drone1/imu''\<rparr>]" and ar = ?ar
      and p = ?p and r = ?r]
  from T [THEN conjunct2, THEN conjunct2, THEN conjunct2, THEN mp, OF ok]
  have c: "fst (chase_main ?ar ?p (Some [\<lparr>name = ''/Drone1/imu''\<rparr>]) ?r) =
       fst (run_calls (phased_connect Chase_main ?ar ?p)) @
       verify_rover_topics (Some [\<lparr>name = ''/Drone1/imu''\<rparr>]) @ fst (chase_rest ?r)" .
  from ok v2 v0 c [unfolded v0] show ?thesis by (intro conjI)
qed

section \<open>The order of the connection phases\<close>



















end
